theory Spec2Isabelle
  imports Complex_Main
begin

section \<open>Vectors\<close>

text \<open>
  Modelled from the spec: the vector classes \<^verbatim>\<open>Vec2\<close> and \<^verbatim>\<open>Vec3\<close> (\<^verbatim>\<open>src/util/Vec2\<close>,
  \<^verbatim>\<open>src/util/Vec3\<close>) are imported by \<^verbatim>\<open>BezierSegmentState.ts\<close> but their code is not among
  the sources. The spec describes them as immutable values with \<^verbatim>\<open>add\<close>, \<^verbatim>\<open>sub\<close>
  (\<^verbatim>\<open>sub(a,b) = a - b\<close>), \<^verbatim>\<open>mul\<close> by a scalar, \<^verbatim>\<open>length\<close> (the Euclidean norm) and
  \<^verbatim>\<open>normalize\<close>. The segment class is generic in the vector type; the development below
  takes the two-dimensional instance, the one of the spec's scenarios. Coordinates are
  real numbers: the arithmetic is exact, rounding of the host's numbers is not modelled.
  For that reason no statement below rests on an algebraic law of the arithmetic (such as
  \<^verbatim>\<open>add\<close> cancelling against \<^verbatim>\<open>sub\<close>), which rounding would break: the general
  statements concern link fields, copied points and which calls are made, and the
  scenarios are evaluated at inputs whose outcome is far from any rounding error.
  \<^verbatim>\<open>normalize\<close> of the zero vector is left open by the spec; here it divides by the
  length, which yields the zero vector, and no statement below relies on that value.
\<close>

datatype Vec2 = Vec2 (vecx: real) (vecy: real)

definition add_vec :: "Vec2 \<Rightarrow> Vec2 \<Rightarrow> Vec2" where
  "add_vec a b = Vec2 (vecx a + vecx b) (vecy a + vecy b)"

definition sub_vec :: "Vec2 \<Rightarrow> Vec2 \<Rightarrow> Vec2" where
  "sub_vec a b = Vec2 (vecx a - vecx b) (vecy a - vecy b)"

definition mul_vec :: "Vec2 \<Rightarrow> real \<Rightarrow> Vec2" where
  "mul_vec a k = Vec2 (vecx a * k) (vecy a * k)"

definition length_vec :: "Vec2 \<Rightarrow> real" where
  "length_vec a = sqrt (vecx a * vecx a + vecy a * vecy a)"

definition normalize_vec :: "Vec2 \<Rightarrow> Vec2" where
  "normalize_vec a = mul_vec a (1 / length_vec a)"


section \<open>Segments and the store\<close>

text \<open>
  A \<^verbatim>\<open>BezierSegmentState\<close> object has four point fields and two link fields; the links are
  references to other segment objects or null. Objects are identified by a reference, and
  the store maps every reference to the current field values of its object. Methods take
  the store and the receiver \<open>this\<close> and return the updated store. The observable-field
  wrappers (\<^verbatim>\<open>Field\<close>, hooks) only notify subscribers and are dropped.
\<close>

type_synonym sref = nat

record BezierSegmentState =
  start :: Vec2
  startControl :: Vec2
  endControl :: Vec2
  endpt :: Vec2
  previous :: "sref option"
  next_seg :: "sref option"

type_synonym store = "sref \<Rightarrow> BezierSegmentState"

text \<open>
  The constructor has two overloads, told apart by the presence of the last two arguments
  (\<^verbatim>\<open>if (end && endControl)\<close>). With two arguments the second one is the end point.
\<close>

definition constructor :: "Vec2 \<Rightarrow> Vec2 \<Rightarrow> Vec2 option \<Rightarrow> Vec2 option \<Rightarrow> BezierSegmentState" where
  "constructor start0 startControl0 endControl0 end0 =
     (case (end0, endControl0) of
        (Some e, Some ec) \<Rightarrow>
          \<lparr> start = start0,
            startControl = sub_vec startControl0 start0,
            endControl = sub_vec ec e,
            endpt = e,
            previous = None, next_seg = None \<rparr>
      | _ \<Rightarrow>
          (let e = startControl0 in
           \<lparr> start = start0,
             startControl = start0,
             endControl = e,
             endpt = e,
             previous = None, next_seg = None \<rparr>))"

text \<open>An omitted optional argument is \<open>None\<close>; \<open>dflt\<close> resolves it to its default.\<close>

definition dflt :: "bool option \<Rightarrow> bool \<Rightarrow> bool" where
  "dflt arg d = (case arg of None \<Rightarrow> d | Some b \<Rightarrow> b)"

subsection \<open>Getters\<close>

definition getPreviousSegment :: "store \<Rightarrow> sref \<Rightarrow> sref option" where
  "getPreviousSegment h this = previous (h this)"

definition getNextSegment :: "store \<Rightarrow> sref \<Rightarrow> sref option" where
  "getNextSegment h this = next_seg (h this)"

definition getStart :: "store \<Rightarrow> sref \<Rightarrow> Vec2" where
  "getStart h this = start (h this)"

definition getEnd :: "store \<Rightarrow> sref \<Rightarrow> Vec2" where
  "getEnd h this = endpt (h this)"

definition getStartDirection :: "store \<Rightarrow> sref \<Rightarrow> Vec2" where
  "getStartDirection h this = normalize_vec (sub_vec (startControl (h this)) (start (h this)))"

definition getEndDirection :: "store \<Rightarrow> sref \<Rightarrow> Vec2" where
  "getEndDirection h this = normalize_vec (sub_vec (endControl (h this)) (endpt (h this)))"

definition getStartControl :: "store \<Rightarrow> sref \<Rightarrow> Vec2" where
  "getStartControl h this = startControl (h this)"

definition getEndControl :: "store \<Rightarrow> sref \<Rightarrow> Vec2" where
  "getEndControl h this = endControl (h this)"

definition getStartControlDelta :: "store \<Rightarrow> sref \<Rightarrow> Vec2" where
  "getStartControlDelta h this = sub_vec (startControl (h this)) (start (h this))"

definition getEndControlDelta :: "store \<Rightarrow> sref \<Rightarrow> Vec2" where
  "getEndControlDelta h this = sub_vec (endControl (h this)) (endpt (h this))"

subsection \<open>Setters\<close>

text \<open>
  \<^verbatim>\<open>setStart\<close> and \<^verbatim>\<open>setEnd\<close> call each other on the linked neighbour, with \<^verbatim>\<open>sync\<close>
  switched off in that call.
\<close>

function setStart :: "store \<Rightarrow> sref \<Rightarrow> Vec2 \<Rightarrow> bool option \<Rightarrow> store"
  and setEnd :: "store \<Rightarrow> sref \<Rightarrow> Vec2 \<Rightarrow> bool option \<Rightarrow> store"
where
  "setStart h this vec sync =
     (let h1 = h(this := (h this)\<lparr>start := vec\<rparr>) in
      if dflt sync True then
        (case previous (h1 this) of
           Some prev \<Rightarrow> setEnd h1 prev vec (Some False)
         | None \<Rightarrow> h1)
      else h1)"
| "setEnd h this vec sync =
     (let h1 = h(this := (h this)\<lparr>endpt := vec\<rparr>) in
      if dflt sync True then
        (case next_seg (h1 this) of
           Some nxt \<Rightarrow> setStart h1 nxt vec (Some False)
         | None \<Rightarrow> h1)
      else h1)"
  by pat_completeness auto
termination
  by (relation "measure (\<lambda>a. case a of
          Inl (h, this, vec, sync) \<Rightarrow> if dflt sync True then 1 else 0
        | Inr (h, this, vec, sync) \<Rightarrow> if dflt sync True then 1 else 0)")
     (auto simp: dflt_def)

definition setStartControl :: "store \<Rightarrow> sref \<Rightarrow> Vec2 \<Rightarrow> store" where
  "setStartControl h this vec = h(this := (h this)\<lparr>startControl := vec\<rparr>)"

definition setEndControl :: "store \<Rightarrow> sref \<Rightarrow> Vec2 \<Rightarrow> store" where
  "setEndControl h this vec = h(this := (h this)\<lparr>endControl := vec\<rparr>)"

definition setStartControlDelta :: "store \<Rightarrow> sref \<Rightarrow> Vec2 \<Rightarrow> store" where
  "setStartControlDelta h this vec =
     h(this := (h this)\<lparr>startControl := sub_vec vec (start (h this))\<rparr>)"

definition setEndControlDelta :: "store \<Rightarrow> sref \<Rightarrow> Vec2 \<Rightarrow> store" where
  "setEndControlDelta h this vec =
     h(this := (h this)\<lparr>endControl := sub_vec vec (endpt (h this))\<rparr>)"

definition setStartDirection :: "store \<Rightarrow> sref \<Rightarrow> Vec2 \<Rightarrow> store" where
  "setStartDirection h this direction =
     (let len = length_vec (getStartControlDelta h this) in
      setStartControlDelta h this (mul_vec (normalize_vec direction) len))"

definition setEndDirection :: "store \<Rightarrow> sref \<Rightarrow> Vec2 \<Rightarrow> store" where
  "setEndDirection h this direction =
     (let len = length_vec (getEndControlDelta h this) in
      setEndControlDelta h this (mul_vec (normalize_vec direction) len))"

definition moveStart :: "store \<Rightarrow> sref \<Rightarrow> Vec2 \<Rightarrow> store" where
  "moveStart h this vec =
     (let delta = sub_vec (startControl (h this)) (start (h this));
          h1 = h(this := (h this)\<lparr>startControl := add_vec vec delta\<rparr>)
      in h1(this := (h1 this)\<lparr>start := vec\<rparr>))"

definition moveEnd :: "store \<Rightarrow> sref \<Rightarrow> Vec2 \<Rightarrow> store" where
  "moveEnd h this vec =
     (let delta = sub_vec (endControl (h this)) (endpt (h this));
          h1 = h(this := (h this)\<lparr>endControl := add_vec vec delta\<rparr>)
      in h1(this := (h1 this)\<lparr>endpt := vec\<rparr>))"

subsection \<open>Chaining\<close>

text \<open>
  \<^verbatim>\<open>setPreviousSegment(segment, sync = true, copyDirection = true)\<close> and
  \<^verbatim>\<open>setNextSegment(segment, sync = true, copyDirection?)\<close>. The comparison
  \<^verbatim>\<open>segment == current\<close> is reference identity (or both null). Each method calls the
  other one on the old and on the new neighbour, passing \<^verbatim>\<open>sync = false\<close> and no
  \<^verbatim>\<open>copyDirection\<close>. In \<^verbatim>\<open>setNextSegment\<close> the value read from \<^verbatim>\<open>segment.getStart()\<close> is
  written to \<^verbatim>\<open>this.start\<close>, as in the source.
\<close>

function setPreviousSegment :: "store \<Rightarrow> sref \<Rightarrow> sref option \<Rightarrow> bool option \<Rightarrow> bool option \<Rightarrow> store"
  and setNextSegment :: "store \<Rightarrow> sref \<Rightarrow> sref option \<Rightarrow> bool option \<Rightarrow> bool option \<Rightarrow> store"
where
  "setPreviousSegment h this segment sync copyDirection =
     (let current = previous (h this) in
      if segment = current then h
      else
        (let h1 = (if dflt sync True then
                     (case current of
                        Some c \<Rightarrow> setNextSegment h c None (Some False) None
                      | None \<Rightarrow> h)
                   else h)
         in case segment of
              Some s \<Rightarrow>
                (let h2 = h1(this := (h1 this)\<lparr>previous := Some s\<rparr>);
                     newStart = getEnd h2 s;
                     h3 = h2(this := (h2 this)\<lparr>start := newStart\<rparr>);
                     h4 = (if dflt copyDirection True
                           then setStartDirection h3 this (mul_vec (getEndDirection h3 s) (- 1))
                           else h3)
                 in if dflt sync True then setNextSegment h4 s (Some this) (Some False) None
                    else h4)
            | None \<Rightarrow> h1(this := (h1 this)\<lparr>previous := None\<rparr>)))"
| "setNextSegment h this segment sync copyDirection =
     (let current = next_seg (h this) in
      if segment = current then h
      else
        (let h1 = (if dflt sync True then
                     (case current of
                        Some c \<Rightarrow> setPreviousSegment h c None (Some False) None
                      | None \<Rightarrow> h)
                   else h)
         in case segment of
              Some s \<Rightarrow>
                (let h2 = h1(this := (h1 this)\<lparr>next_seg := Some s\<rparr>);
                     newEnd = getStart h2 s;
                     h3 = h2(this := (h2 this)\<lparr>start := newEnd\<rparr>);
                     h4 = (if dflt copyDirection False
                           then setEndDirection h3 this (mul_vec (getStartDirection h3 s) (- 1))
                           else h3)
                 in if dflt sync True then setPreviousSegment h4 s (Some this) (Some False) None
                    else h4)
            | None \<Rightarrow> h1(this := (h1 this)\<lparr>next_seg := None\<rparr>)))"
  by pat_completeness auto
termination
  by (relation "measure (\<lambda>a. case a of
          Inl (h, this, segment, sync, copyDirection) \<Rightarrow> if dflt sync True then 1 else 0
        | Inr (h, this, segment, sync, copyDirection) \<Rightarrow> if dflt sync True then 1 else 0)")
     (auto simp: dflt_def)


section \<open>Example stores\<close>

text \<open>
  Concrete stores for the scenarios below. Reference \<open>0\<close> is segment A, reference \<open>1\<close> is
  segment B, reference \<open>2\<close> a third segment.
\<close>

text \<open>
  Two straight segments, A from (0,0) to (1,0) and B from (5,0) to (6,0); then
  \<^verbatim>\<open>B.setPreviousSegment(A, false, false)\<close> and \<^verbatim>\<open>B.moveStart((2,0))\<close>.
\<close>

definition c1_fresh :: store where
  "c1_fresh = (\<lambda>r. if r = 0 then constructor (Vec2 0 0) (Vec2 1 0) None None
                    else constructor (Vec2 5 0) (Vec2 6 0) None None)"

definition c1_input :: store where
  "c1_input =
     moveStart (setPreviousSegment c1_fresh 1 (Some 0) (Some False) (Some False)) 1 (Vec2 2 0)"

text \<open>
  A = \<^verbatim>\<open>new BezierSegmentState((0,5), (1,10), (9,10), (5,5))\<close> and
  B = \<^verbatim>\<open>new BezierSegmentState((0,0), (5,7), (19,0), (10,0))\<close>, unlinked.
\<close>

definition c2_input :: store where
  "c2_input = (\<lambda>r. if r = 0
       then constructor (Vec2 0 5) (Vec2 1 10) (Some (Vec2 9 10)) (Some (Vec2 5 5))
       else constructor (Vec2 0 0) (Vec2 5 7) (Some (Vec2 19 0)) (Some (Vec2 10 0)))"

text \<open>
  A = \<^verbatim>\<open>new BezierSegmentState((0,0), (1,0), (3,4), (0,2))\<close>; every other segment is
  \<^verbatim>\<open>new BezierSegmentState((4,2), (9,4), (17,4), (9,2))\<close>. All are unlinked, and all
  control deltas are non-zero: A's fields are start (0,0), startControl (1,0),
  endControl (3,2), end (0,2); the others have start (4,2), startControl (5,2),
  endControl (8,2), end (9,2).
\<close>

definition pair_store :: store where
  "pair_store = (\<lambda>r. if r = 0
       then constructor (Vec2 0 0) (Vec2 1 0) (Some (Vec2 3 4)) (Some (Vec2 0 2))
       else constructor (Vec2 4 2) (Vec2 9 4) (Some (Vec2 17 4)) (Some (Vec2 9 2)))"

text \<open>The pair after \<^verbatim>\<open>A.setNextSegment(B)\<close>: A and B are linked to each other.\<close>

definition linked_pair :: store where
  "linked_pair = setNextSegment pair_store 0 (Some 1) None None"

text \<open>
  Three segments after \<^verbatim>\<open>D.setNextSegment(C)\<close> and then \<^verbatim>\<open>A.setNextSegment(C)\<close>, where A,
  C, D are the references 0, 1, 2.
\<close>

definition c3_input :: store where
  "c3_input =
     setNextSegment (setNextSegment pair_store 2 (Some 1) None None) 0 (Some 1) None None"

text \<open>
  The store \<open>pair_store\<close> after the part of \<^verbatim>\<open>A.setNextSegment(B, true, true)\<close> that runs on
  A itself, before the reciprocal call.
\<close>

definition c5_local :: store where
  "c5_local = pair_store(0 := \<lparr>start = Vec2 4 2, startControl = Vec2 1 0,
      endControl = Vec2 (- 3) (- 2), endpt = Vec2 0 2, previous = None,
      next_seg = Some (Suc 0)\<rparr>)"

text \<open>\<^verbatim>\<open>new BezierSegmentState((0,2), (3,4), (3,-4), (0,-2))\<close>: both control deltas are (3,0).\<close>

definition c7_input :: store where
  "c7_input =
     (\<lambda>r. constructor (Vec2 0 2) (Vec2 3 4) (Some (Vec2 3 (- 4))) (Some (Vec2 0 (- 2))))"

text \<open>\<^verbatim>\<open>new BezierSegmentState((1,1), (2,3), (4,5), (6,6))\<close>.\<close>

definition c8_input :: store where
  "c8_input = (\<lambda>r. constructor (Vec2 1 1) (Vec2 2 3) (Some (Vec2 4 5)) (Some (Vec2 6 6)))"



section \<open>Unfolding the methods\<close>

declare setPreviousSegment.simps [simp del] setNextSegment.simps [simp del]
declare setStart.simps [simp del] setEnd.simps [simp del]

text \<open>With \<^verbatim>\<open>sync = false\<close> neither linking method calls the other one.\<close>

lemma setNextSegment_nosync:
  "setNextSegment h this segment (Some False) copyDirection =
     (if segment = next_seg (h this) then h
      else case segment of
             Some s \<Rightarrow>
               (let h2 = h(this := (h this)\<lparr>next_seg := Some s\<rparr>);
                    h3 = h2(this := (h2 this)\<lparr>start := getStart h2 s\<rparr>)
                in if dflt copyDirection False
                   then setEndDirection h3 this (mul_vec (getStartDirection h3 s) (- 1))
                   else h3)
           | None \<Rightarrow> h(this := (h this)\<lparr>next_seg := None\<rparr>))"
  by (subst setNextSegment.simps) (simp add: dflt_def Let_def split: option.split)

lemma setPreviousSegment_nosync:
  "setPreviousSegment h this segment (Some False) copyDirection =
     (if segment = previous (h this) then h
      else case segment of
             Some s \<Rightarrow>
               (let h2 = h(this := (h this)\<lparr>previous := Some s\<rparr>);
                    h3 = h2(this := (h2 this)\<lparr>start := getEnd h2 s\<rparr>)
                in if dflt copyDirection True
                   then setStartDirection h3 this (mul_vec (getEndDirection h3 s) (- 1))
                   else h3)
           | None \<Rightarrow> h(this := (h this)\<lparr>previous := None\<rparr>))"
  by (subst setPreviousSegment.simps) (simp add: dflt_def Let_def split: option.split)

lemma unlink_nosync:
  "setNextSegment h c None (Some False) cd = h(c := (h c)\<lparr>next_seg := None\<rparr>)"
  "setPreviousSegment h c None (Some False) cd = h(c := (h c)\<lparr>previous := None\<rparr>)"
  by (auto simp: setNextSegment_nosync setPreviousSegment_nosync fun_eq_iff)



text \<open>From a segment without a next one, the synchronised call is the local step followed
  by the reciprocal call.\<close>

lemma setNextSegment_fresh:
  "next_seg (h this) = None \<Longrightarrow>
   setNextSegment h this (Some s) (Some True) cd =
     setPreviousSegment (setNextSegment h this (Some s) (Some False) cd) s (Some this)
       (Some False) None"
  by (subst setNextSegment.simps) (simp add: setNextSegment_nosync dflt_def Let_def)

subsection \<open>The link fields after a call\<close>

lemma setEndDirection_links:
  "previous (setEndDirection h this d x) = previous (h x)"
  "next_seg (setEndDirection h this d x) = next_seg (h x)"
  by (auto simp: setEndDirection_def setEndControlDelta_def Let_def)

lemma setStartDirection_links:
  "previous (setStartDirection h this d x) = previous (h x)"
  "next_seg (setStartDirection h this d x) = next_seg (h x)"
  by (auto simp: setStartDirection_def setStartControlDelta_def Let_def)

lemma setNextSegment_nosync_links:
  "previous (setNextSegment h this segment (Some False) cd x) = previous (h x)"
  "next_seg (setNextSegment h this segment (Some False) cd x) =
     (if x = this then segment else next_seg (h x))"
  by (auto simp: setNextSegment_nosync Let_def setEndDirection_links split: option.split)

lemma setPreviousSegment_nosync_links:
  "next_seg (setPreviousSegment h this segment (Some False) cd x) = next_seg (h x)"
  "previous (setPreviousSegment h this segment (Some False) cd x) =
     (if x = this then segment else previous (h x))"
  by (auto simp: setPreviousSegment_nosync Let_def setStartDirection_links split: option.split)

lemma setNextSegment_links:
  "next_seg (setNextSegment h this segment sync cd x) =
     (if segment = next_seg (h this) then next_seg (h x)
      else if x = this then segment else next_seg (h x))"
  "previous (setNextSegment h this segment sync cd x) =
     (if segment = next_seg (h this) then previous (h x)
      else if dflt sync True then
        (if Some x = segment then Some this
         else if Some x = next_seg (h this) then None
         else previous (h x))
      else previous (h x))"
  by (subst setNextSegment.simps;
      auto simp: Let_def setNextSegment_nosync_links setPreviousSegment_nosync_links
          setEndDirection_links setStartDirection_links split: option.split)+

lemma setPreviousSegment_links:
  "previous (setPreviousSegment h this segment sync cd x) =
     (if segment = previous (h this) then previous (h x)
      else if x = this then segment else previous (h x))"
  "next_seg (setPreviousSegment h this segment sync cd x) =
     (if segment = previous (h this) then next_seg (h x)
      else if dflt sync True then
        (if Some x = segment then Some this
         else if Some x = previous (h this) then None
         else next_seg (h x))
      else next_seg (h x))"
  by (subst setPreviousSegment.simps;
      auto simp: Let_def setNextSegment_nosync_links setPreviousSegment_nosync_links
          setEndDirection_links setStartDirection_links split: option.split)+

subsection \<open>The point fields after a call\<close>

lemma unlink_points:
  "start (setNextSegment h this None sync cd x) = start (h x)"
  "startControl (setNextSegment h this None sync cd x) = startControl (h x)"
  "endControl (setNextSegment h this None sync cd x) = endControl (h x)"
  "endpt (setNextSegment h this None sync cd x) = endpt (h x)"
  "start (setPreviousSegment h this None sync cd x) = start (h x)"
  "startControl (setPreviousSegment h this None sync cd x) = startControl (h x)"
  "endControl (setPreviousSegment h this None sync cd x) = endControl (h x)"
  "endpt (setPreviousSegment h this None sync cd x) = endpt (h x)"
  by ((subst setNextSegment.simps | subst setPreviousSegment.simps),
      simp add: Let_def unlink_nosync split: option.split)+

text \<open>No linking call writes an end point.\<close>

lemma link_nosync_endpt:
  "endpt (setNextSegment h this seg (Some False) cd x) = endpt (h x)"
  "endpt (setPreviousSegment h this seg (Some False) cd x) = endpt (h x)"
  by (simp_all add: setNextSegment_nosync setPreviousSegment_nosync Let_def
      setEndDirection_def setEndControlDelta_def setStartDirection_def
      setStartControlDelta_def split: option.split)

lemma link_endpt:
  "endpt (setNextSegment h this seg sync cd x) = endpt (h x)"
  "endpt (setPreviousSegment h this seg sync cd x) = endpt (h x)"
  by ((subst setNextSegment.simps | subst setPreviousSegment.simps),
      simp add: Let_def link_nosync_endpt setEndDirection_def setEndControlDelta_def
        setStartDirection_def setStartControlDelta_def split: option.split)+




lemma setStart_fields:
  "start (setStart h this vec sync x) = (if x = this then vec else start (h x))"
  "startControl (setStart h this vec sync x) = startControl (h x)"
  "endControl (setStart h this vec sync x) = endControl (h x)"
  by (subst setStart.simps, subst setEnd.simps,
      simp add: Let_def dflt_def split: option.split)+

lemma setEnd_fields:
  "endpt (setEnd h this vec sync x) = (if x = this then vec else endpt (h x))"
  "startControl (setEnd h this vec sync x) = startControl (h x)"
  "endControl (setEnd h this vec sync x) = endControl (h x)"
  by (subst setEnd.simps, subst setStart.simps,
      simp add: Let_def dflt_def split: option.split)+

subsection \<open>Vectors of the scenarios\<close>

lemma length_vec_axis [simp]:
  "length_vec (Vec2 a 0) = \<bar>a\<bar>" "length_vec (Vec2 0 b) = \<bar>b\<bar>"
  by (simp_all add: length_vec_def)

lemma sqrt_25: "sqrt 25 = 5"
  using real_sqrt_abs [of 5] by simp

lemma length_vec_3_4 [simp]:
  "length_vec (Vec2 (- 3) (- 4)) = 5" "length_vec (Vec2 3 (- 4)) = 5"
  "length_vec (Vec2 3 4) = 5"
  by (simp_all add: length_vec_def sqrt_25)

lemma length_vec_unit [simp]: "length_vec (Vec2 (3 / 5) (4 / 5)) = 1"
proof -
  have "(3 / 5) * (3 / 5) + (4 / 5) * (4 / 5) = (1::real)" by simp
  then show ?thesis by (simp add: length_vec_def)
qed

subsection \<open>Fields of the example stores\<close>

lemma c1_input_fields:
  "c1_input 0 = \<lparr>start = Vec2 0 0, startControl = Vec2 0 0, endControl = Vec2 1 0,
      endpt = Vec2 1 0, previous = None, next_seg = None\<rparr>"
  "c1_input (Suc 0) = \<lparr>start = Vec2 2 0, startControl = Vec2 6 0, endControl = Vec2 6 0,
      endpt = Vec2 6 0, previous = Some 0, next_seg = None\<rparr>"
  by (simp_all add: c1_input_def c1_fresh_def constructor_def moveStart_def
      setPreviousSegment_nosync dflt_def Let_def getEnd_def add_vec_def sub_vec_def)

lemma c2_input_fields:
  "c2_input 0 = \<lparr>start = Vec2 0 5, startControl = Vec2 1 5, endControl = Vec2 4 5,
      endpt = Vec2 5 5, previous = None, next_seg = None\<rparr>"
  "c2_input (Suc 0) = \<lparr>start = Vec2 0 0, startControl = Vec2 5 7, endControl = Vec2 9 0,
      endpt = Vec2 10 0, previous = None, next_seg = None\<rparr>"
  by (simp_all add: c2_input_def constructor_def sub_vec_def)

lemma pair_store_fields:
  "pair_store 0 = \<lparr>start = Vec2 0 0, startControl = Vec2 1 0, endControl = Vec2 3 2,
      endpt = Vec2 0 2, previous = None, next_seg = None\<rparr>"
  "r \<noteq> 0 \<Longrightarrow> pair_store r = \<lparr>start = Vec2 4 2, startControl = Vec2 5 2,
      endControl = Vec2 8 2, endpt = Vec2 9 2, previous = None, next_seg = None\<rparr>"
  by (simp_all add: pair_store_def constructor_def sub_vec_def)

lemma c5_step1:
  "setNextSegment pair_store 0 (Some (Suc 0)) (Some False) (Some True) = c5_local"
  by (simp add: setNextSegment_nosync pair_store_fields c5_local_def
      dflt_def Let_def getStart_def getStartDirection_def
      setEndDirection_def getEndControlDelta_def setEndControlDelta_def
      normalize_vec_def mul_vec_def sub_vec_def)

lemma c5_step2:
  "setPreviousSegment c5_local (Suc 0) (Some 0) (Some False) None 0 =
    \<lparr>start = Vec2 4 2, startControl = Vec2 1 0, endControl = Vec2 (- 3) (- 2),
      endpt = Vec2 0 2, previous = None, next_seg = Some (Suc 0)\<rparr>"
  "setPreviousSegment c5_local (Suc 0) (Some 0) (Some False) None (Suc 0) =
    \<lparr>start = Vec2 0 2, startControl = Vec2 3 2, endControl = Vec2 8 2,
      endpt = Vec2 9 2, previous = Some 0, next_seg = None\<rparr>"
   apply (simp_all add: setPreviousSegment_nosync pair_store_fields c5_local_def
      dflt_def Let_def getEnd_def getEndDirection_def
      setStartDirection_def getStartControlDelta_def setStartControlDelta_def sub_vec_def)
  apply (simp add: normalize_vec_def mul_vec_def)
  done

section \<open>Position propagation when linking\<close>

text \<open>
  C1. Claimed: for any two segments A and B, right after \<^verbatim>\<open>A.setNextSegment(B)\<close> with
  default arguments \<^verbatim>\<open>A.getEnd()\<close> equals \<^verbatim>\<open>B.getStart()\<close>, because B's start is copied
  into A's end. The method stores the value of \<^verbatim>\<open>segment.getStart()\<close> in \<^verbatim>\<open>this.start\<close>, not
  in \<^verbatim>\<open>this.end\<close>. In the store \<open>c1_input\<close> (B already has A as previous, A has no next,
  A ends at (1,0) and B starts at (2,0)) the call leaves A's end at (1,0) and B's start at
  (2,0), and moves A's start to (2,0). In no store does \<^verbatim>\<open>setNextSegment\<close> change the end
  point of any segment.
\<close>

theorem C1_setNextSegment_writes_start:
  "getEnd (setNextSegment c1_input 0 (Some 1) None None) 0 = Vec2 1 0 \<and>
   getStart (setNextSegment c1_input 0 (Some 1) None None) 1 = Vec2 2 0 \<and>
   getStart (setNextSegment c1_input 0 (Some 1) None None) 0 = Vec2 2 0 \<and>
   getEnd (setNextSegment h a seg sync cd) x = getEnd h x"
proof -
  have "getEnd (setNextSegment c1_input 0 (Some 1) None None) 0 = Vec2 1 0 \<and>
      getStart (setNextSegment c1_input 0 (Some 1) None None) 1 = Vec2 2 0 \<and>
      getStart (setNextSegment c1_input 0 (Some 1) None None) 0 = Vec2 2 0"
    by (subst setNextSegment.simps, simp add: c1_input_fields setPreviousSegment_nosync
        dflt_def Let_def getEnd_def getStart_def)+
  then show ?thesis by (simp add: getEnd_def link_endpt)
qed

text \<open>
  C2. Claimed: with A ending at (5,5) and B starting at (0,0), after
  \<^verbatim>\<open>B.setPreviousSegment(A)\<close> with default arguments \<^verbatim>\<open>B.getStart()\<close> is (5,5) and A's
  four points are unchanged. B's start does become (5,5), but the reciprocal call
  \<^verbatim>\<open>A.setNextSegment(B, false)\<close> stores B's start in A's start: in \<open>c2_input\<close> A's
  start moves from (0,5) to (5,5).
\<close>

theorem C2_setPreviousSegment_moves_previous_start:
  "getEnd c2_input 0 = Vec2 5 5 \<and> getStart c2_input 1 = Vec2 0 0 \<and>
   getStart c2_input 0 = Vec2 0 5 \<and>
   getStart (setPreviousSegment c2_input 1 (Some 0) None None) 1 = Vec2 5 5 \<and>
   getStart (setPreviousSegment c2_input 1 (Some 0) None None) 0 = Vec2 5 5"
  by (subst setPreviousSegment.simps, simp add: setNextSegment_nosync c2_input_fields
      dflt_def Let_def getEnd_def getStart_def getEndDirection_def setStartDirection_def
      setStartControlDelta_def getStartControlDelta_def normalize_vec_def mul_vec_def
      sub_vec_def)+


section \<open>Symmetry and replacement of links\<close>

text \<open>
  C3, as claimed: for every two segments A and B, after \<^verbatim>\<open>A.setNextSegment(B, true)\<close> B's
  previous segment is A. This fails when A's next is already B while B's previous is
  another segment: the identity check returns before anything is done. Such a store
  arises from default calls alone: after \<^verbatim>\<open>D.setNextSegment(C)\<close> and
  \<^verbatim>\<open>A.setNextSegment(C)\<close>, D's next is still C but C's previous is A, and
  \<^verbatim>\<open>D.setNextSegment(C, true)\<close> leaves it so.
\<close>

theorem C3_already_next_counterexample:
  "getPreviousSegment (setNextSegment c3_input 2 (Some 1) (Some True) None) 1 \<noteq> Some 2"
  by (simp add: getPreviousSegment_def c3_input_def setNextSegment_links pair_store_fields
      dflt_def)

text \<open>
  C3, amended: for every two segments A and B such that, before the call, A's next is not
  already B or B's previous is already A, after \<^verbatim>\<open>A.setNextSegment(B, true)\<close> (with any
  \<^verbatim>\<open>copyDirection\<close>) B's previous is A and A's next is B. Symmetrically, if B's previous
  is not already A or A's next is already B, then after \<^verbatim>\<open>B.setPreviousSegment(A, true)\<close>
  A's next is B and B's previous is A.
\<close>

theorem C3_link_symmetric:
  "(next_seg (h a) \<noteq> Some b \<or> previous (h b) = Some a \<longrightarrow>
      getPreviousSegment (setNextSegment h a (Some b) (Some True) cd) b = Some a \<and>
      getNextSegment (setNextSegment h a (Some b) (Some True) cd) a = Some b) \<and>
   (previous (h b) \<noteq> Some a \<or> next_seg (h a) = Some b \<longrightarrow>
      getNextSegment (setPreviousSegment h b (Some a) (Some True) cd) a = Some b \<and>
      getPreviousSegment (setPreviousSegment h b (Some a) (Some True) cd) b = Some a)"
  by (simp add: getPreviousSegment_def getNextSegment_def setNextSegment_links
        setPreviousSegment_links dflt_def)

theorem C3_link_symmetric_witness:
  "next_seg (pair_store 0) \<noteq> Some 1 \<and> previous (pair_store 1) \<noteq> Some 0 \<and>
   getPreviousSegment (setNextSegment pair_store 0 (Some 1) (Some True) None) 1 = Some 0 \<and>
   getNextSegment (setNextSegment pair_store 0 (Some 1) (Some True) None) 0 = Some 1 \<and>
   getNextSegment (setPreviousSegment pair_store 1 (Some 0) (Some True) None) 0 = Some 1 \<and>
   getPreviousSegment (setPreviousSegment pair_store 1 (Some 0) (Some True) None) 1 = Some 0"
  using C3_link_symmetric [of pair_store 0 1 None]
  by (simp add: pair_store_fields)

text \<open>
  C4. Replacement: if A's next is B, then after \<^verbatim>\<open>A.setNextSegment(C)\<close> with default
  arguments, for a segment C other than B, B has no previous segment and C's previous
  segment is A.
\<close>

theorem C4_replacement:
  assumes "getNextSegment h a = Some b" and "b \<noteq> c"
  shows "getPreviousSegment (setNextSegment h a (Some c) None None) b = None \<and>
         getPreviousSegment (setNextSegment h a (Some c) None None) c = Some a"
  using assms
  by (simp add: getPreviousSegment_def getNextSegment_def setNextSegment_links dflt_def)

theorem C4_replacement_witness:
  "getNextSegment linked_pair 0 = Some 1 \<and> (1::nat) \<noteq> 2 \<and>
   getPreviousSegment (setNextSegment linked_pair 0 (Some 2) None None) 1 = None \<and>
   getPreviousSegment (setNextSegment linked_pair 0 (Some 2) None None) 2 = Some 0"
proof -
  have l: "getNextSegment linked_pair 0 = Some 1"
    by (simp add: getNextSegment_def linked_pair_def setNextSegment_links pair_store_fields)
  have d: "(1::nat) \<noteq> 2" by simp
  show ?thesis using l d C4_replacement [OF l d] by simp
qed


section \<open>Direction propagation\<close>

text \<open>
  C5. Claimed: for segments with non-zero boundary control deltas, after
  \<^verbatim>\<open>A.setNextSegment(B, true, true)\<close> A's end direction is the negation of B's start
  direction. \<^verbatim>\<open>setEndDirection\<close> goes through \<^verbatim>\<open>setEndControlDelta\<close>, which stores the
  delta minus the end point, while \<^verbatim>\<open>getEndDirection\<close> subtracts the end point from the
  stored control again. In \<open>pair_store\<close> (A's end delta is (3,0), B's start delta is
  (1,0)) A's end direction after the call is (-3/5,-4/5), while the negation of B's start
  direction is (-1,0).
\<close>

theorem C5_direction_not_negated:
  "getEndControlDelta pair_store 0 = Vec2 3 0 \<and>
   getStartControlDelta pair_store 1 = Vec2 1 0 \<and>
   getEndDirection (setNextSegment pair_store 0 (Some 1) (Some True) (Some True)) 0
     = Vec2 (- 3 / 5) (- 4 / 5) \<and>
   mul_vec (getStartDirection (setNextSegment pair_store 0 (Some 1) (Some True) (Some True)) 1)
     (- 1) = Vec2 (- 1) 0"
proof -
  have fresh: "next_seg (pair_store 0) = None"
    by (simp add: pair_store_fields)
  have after: "setNextSegment pair_store 0 (Some (Suc 0)) (Some True) (Some True) =
      setPreviousSegment c5_local (Suc 0) (Some 0) (Some False) None"
    using setNextSegment_fresh [of pair_store 0 "Suc 0" "Some True"] fresh
    by (simp add: c5_step1)
  show ?thesis
    by (simp add: after c5_step2 getEndDirection_def getStartDirection_def
        getEndControlDelta_def getStartControlDelta_def pair_store_fields
        normalize_vec_def mul_vec_def sub_vec_def)
qed


section \<open>Setting a direction\<close>

text \<open>
  C7. Claimed: for a segment with a non-zero start control delta and a non-zero \<open>dir\<close>, after
  \<^verbatim>\<open>setStartDirection(dir)\<close> the start control delta has its old length and the direction
  of \<open>dir\<close>; likewise for \<^verbatim>\<open>setEndDirection\<close>. \<^verbatim>\<open>setStartControlDelta\<close> stores the given
  delta minus the start point, and \<^verbatim>\<open>getStartControlDelta\<close> subtracts the start point from
  the stored control again. In \<open>c7_input\<close> both deltas are (3,0) of length 3; after setting
  the direction (1,0) the start delta is (3,-4) and the end delta (3,4), both of length 5
  and neither in direction (1,0).
\<close>

theorem C7_setDirection_changes_length:
  "length_vec (getStartControlDelta c7_input 0) = 3 \<and>
   length_vec (getStartControlDelta (setStartDirection c7_input 0 (Vec2 1 0)) 0) = 5 \<and>
   normalize_vec (getStartControlDelta (setStartDirection c7_input 0 (Vec2 1 0)) 0)
     = Vec2 (3 / 5) (- 4 / 5) \<and>
   normalize_vec (Vec2 1 0) = Vec2 1 0 \<and>
   length_vec (getEndControlDelta c7_input 0) = 3 \<and>
   length_vec (getEndControlDelta (setEndDirection c7_input 0 (Vec2 1 0)) 0) = 5 \<and>
   normalize_vec (getEndControlDelta (setEndDirection c7_input 0 (Vec2 1 0)) 0)
     = Vec2 (3 / 5) (4 / 5)"
  by (simp add: c7_input_def constructor_def getStartControlDelta_def setStartDirection_def
      setStartControlDelta_def getEndControlDelta_def setEndDirection_def
      setEndControlDelta_def normalize_vec_def mul_vec_def sub_vec_def Let_def)


section \<open>The four-point constructor\<close>

text \<open>
  C8. Claimed: a segment built by the four-point constructor returns the given control
  points from \<^verbatim>\<open>getStartControl()\<close> and \<^verbatim>\<open>getEndControl()\<close>. The constructor stores each
  control point minus its anchor and the getters return the stored value:
  \<^verbatim>\<open>new BezierSegmentState((1,1), (2,3), (4,5), (6,6))\<close> has start control (1,2) and end
  control (-2,-1).
\<close>

theorem C8_constructor_stores_deltas:
  "getStartControl c8_input 0 = Vec2 1 2 \<and> getEndControl c8_input 0 = Vec2 (- 2) (- 1)"
  by (simp add: getStartControl_def getEndControl_def c8_input_def constructor_def
      sub_vec_def)


section \<open>Unlinking\<close>

text \<open>
  C9, as claimed: for a linked pair, \<^verbatim>\<open>setNextSegment(null)\<close> with default arguments clears
  the relation on the calling side only. With the default \<^verbatim>\<open>sync = true\<close> the old neighbour
  is unlinked too: in \<open>linked_pair\<close> B's previous segment is A, and after
  \<^verbatim>\<open>A.setNextSegment(null)\<close> B has no previous segment.
\<close>

theorem C9_unlink_both_sides_counterexample:
  "getPreviousSegment linked_pair 1 = Some 0 \<and>
   getPreviousSegment (setNextSegment linked_pair 0 None None None) 1 = None"
  by (simp add: getPreviousSegment_def linked_pair_def setNextSegment_links
      pair_store_fields dflt_def)

text \<open>
  C9, amended: for every linked pair (A's next is B and B's previous is A),
  \<^verbatim>\<open>A.setNextSegment(null)\<close> and \<^verbatim>\<open>B.setPreviousSegment(null)\<close> with default arguments each
  clear the relation on both sides, and leave start, startControl, endControl and end of
  every segment unchanged. (Segments are never removed from the store.)
\<close>

theorem C9_unlink_moves_nothing:
  assumes "getNextSegment h a = Some b" and "getPreviousSegment h b = Some a"
  shows "getNextSegment (setNextSegment h a None None None) a = None \<and>
         getPreviousSegment (setNextSegment h a None None None) b = None \<and>
         getPreviousSegment (setPreviousSegment h b None None None) b = None \<and>
         getNextSegment (setPreviousSegment h b None None None) a = None \<and>
         (\<forall>x. getStart (setNextSegment h a None None None) x = getStart h x \<and>
              getStartControl (setNextSegment h a None None None) x = getStartControl h x \<and>
              getEndControl (setNextSegment h a None None None) x = getEndControl h x \<and>
              getEnd (setNextSegment h a None None None) x = getEnd h x \<and>
              getStart (setPreviousSegment h b None None None) x = getStart h x \<and>
              getStartControl (setPreviousSegment h b None None None) x = getStartControl h x \<and>
              getEndControl (setPreviousSegment h b None None None) x = getEndControl h x \<and>
              getEnd (setPreviousSegment h b None None None) x = getEnd h x)"
  using assms
  by (simp add: getPreviousSegment_def getNextSegment_def setNextSegment_links
        setPreviousSegment_links dflt_def unlink_points
        getStart_def getEnd_def getStartControl_def getEndControl_def)

theorem C9_unlink_moves_nothing_witness:
  "getNextSegment linked_pair 0 = Some 1 \<and> getPreviousSegment linked_pair 1 = Some 0 \<and>
   getNextSegment (setNextSegment linked_pair 0 None None None) 0 = None \<and>
   getPreviousSegment (setNextSegment linked_pair 0 None None None) 1 = None \<and>
   getPreviousSegment (setPreviousSegment linked_pair 1 None None None) 1 = None \<and>
   getNextSegment (setPreviousSegment linked_pair 1 None None None) 0 = None \<and>
   getStart (setNextSegment linked_pair 0 None None None) 0 = getStart linked_pair 0 \<and>
   getEnd (setPreviousSegment linked_pair 1 None None None) 1 = getEnd linked_pair 1"
proof -
  have n: "getNextSegment linked_pair 0 = Some 1"
    by (simp add: getNextSegment_def linked_pair_def setNextSegment_links pair_store_fields)
  have p: "getPreviousSegment linked_pair 1 = Some 0"
    by (simp add: getPreviousSegment_def linked_pair_def setNextSegment_links
        pair_store_fields dflt_def)
  show ?thesis using n p C9_unlink_moves_nothing [OF n p] by blast
qed


section \<open>Defaults of the direction copy\<close>




end
